theory Spec2Isabelle
  imports Main "HOL-Library.Char_ord" "HOL-Library.List_Lexorder" "HOL-Library.AList"
    "HOL-Library.Sublist" "HOL-Library.Word"
begin

unbundle bit_operations_syntax

section \<open>EchoCopi memory engine (echo_memory.py)\<close>

text \<open>
  The engine keeps a per-session journal of checksummed event records, an evolution
  aggregate that is rewritten after every mutation, and a startup routine that rebuilds
  the next plan step from checkpoint marker files.

  Conventions of the embedding.
  \<^item> A Python value that can occur in a record is a \<open>json\<close> value: \<open>None\<close>, a bool, an
    int, a str, a list or a dict with str keys. A dict is an association list in insertion
    order; Python dicts have no repeated key, which \<open>wf_json\<close> states. Floats are not
    modelled.
  \<^item> A \<open>char\<close> is a code point below 256, and a \<open>string\<close> is a Python str over those.
  \<^item> \<open>hashlib.sha256(s.encode()).hexdigest()\<close> is library code; it is the parameter
    \<open>H\<close> of every function that hashes, so that what is proved of them holds for any
    hash. \<open>sha256_hexdigest\<close> is the function itself, for the statements that need it.
  \<^item> \<open>datetime.now()\<close> is an input: every operation takes the time stamps it reads.
  \<^item> \<open>log_thought\<close> keeps the caller's context dict itself, not a copy, and changes
    the aggregate after it has set the checksum. A dict of the caller may be, or may
    hold, the engine's \<open>evolution_data\<close> object; what it reads then changes with the
    aggregate. So such an object is given by its content in terms of the aggregate's
    content (\<open>shared\<close>): \<open>unshared c\<close> for a dict that shares nothing with the
    engine, \<open>evolution_json\<close> for \<open>engine.evolution_data\<close> itself.
  \<^item> Files are part of the state; writing them is assumed to succeed.
\<close>

subsection \<open>JSON values and \<open>json.dumps(..., sort_keys=True)\<close>\<close>

datatype json = JNull | JBool bool | JInt int | JStr string
  | JList "json list" | JObj "(string \<times> json) list"

type_synonym entry = "(string \<times> json) list"

datatype py_error = JSONDecodeError | TypeError | AttributeError

definition bslash :: char where "bslash = CHR 0x5C"
definition dquote :: char where "dquote = CHR 0x22"
definition newline :: char where "newline = CHR 0x0A"

definition hex_digit :: "nat \<Rightarrow> char" where
  "hex_digit n = ''0123456789abcdef'' ! n"

text \<open>
  \<open>json.encoder.py_encode_basestring_ascii\<close>: backslash, the double quote and five
  control characters have short escapes; every other character outside
  \<open>' '..'~'\<close> becomes \<open>\uXXXX\<close> with lower-case hex digits.
\<close>

definition esc_char :: "char \<Rightarrow> string" where
  "esc_char c =
     (if c = bslash then [bslash, bslash]
      else if c = dquote then [bslash, dquote]
      else if c = CHR 0x08 then [bslash, CHR ''b'']
      else if c = CHR 0x0C then [bslash, CHR ''f'']
      else if c = CHR 0x0A then [bslash, CHR ''n'']
      else if c = CHR 0x0D then [bslash, CHR ''r'']
      else if c = CHR 0x09 then [bslash, CHR ''t'']
      else if 32 \<le> (of_char c :: nat) \<and> (of_char c :: nat) \<le> 126 then [c]
      else [bslash, CHR ''u'', CHR ''0'', CHR ''0'',
            hex_digit ((of_char c :: nat) div 16), hex_digit ((of_char c :: nat) mod 16)])"

definition encode_basestring_ascii :: "string \<Rightarrow> string" where
  "encode_basestring_ascii s = dquote # concat (map esc_char s) @ [dquote]"

fun digits :: "nat \<Rightarrow> string" where
  "digits n = (if n < 10 then [hex_digit n] else digits (n div 10) @ [hex_digit (n mod 10)])"

declare digits.simps [simp del]

text \<open>\<open>int.__repr__\<close>: decimal, a minus sign for a negative number.\<close>

definition str_int :: "int \<Rightarrow> string" where
  "str_int i = (if i < 0 then CHR ''-'' # digits (nat (- i)) else digits (nat i))"

fun join :: "string \<Rightarrow> string list \<Rightarrow> string" where
  "join sep [] = []"
| "join sep [x] = x"
| "join sep (x # y # ys) = x @ sep @ join sep (y # ys)"

text \<open>
  \<open>json.dumps(v, sort_keys=True)\<close> with the default separators \<open>', '\<close> and \<open>': '\<close>
  and \<open>ensure_ascii=True\<close>. The encoder sorts the items of every dict it meets
  (\<open>sorted(dct.items())\<close>), so nested dicts are sorted too.
\<close>

function dumps :: "json \<Rightarrow> string" where
  "dumps JNull = ''null''"
| "dumps (JBool b) = (if b then ''true'' else ''false'')"
| "dumps (JInt i) = str_int i"
| "dumps (JStr s) = encode_basestring_ascii s"
| "dumps (JList xs) = ''['' @ join '', '' (map dumps xs) @ '']''"
| "dumps (JObj kvs) =
     ''{'' @ join '', '' (map (\<lambda>(k, v). encode_basestring_ascii k @ '': '' @ dumps v)
                              (sort_key fst kvs)) @ ''}''"
  by pat_completeness auto
termination
proof (relation "measure size")
  show "wf (measure size)" by simp
next
  fix xs :: "json list" and x assume "x \<in> set xs"
  then have "size x \<le> size_list size xs"
    by (rule size_list_estimation') simp
  then show "(x, JList xs) \<in> measure size" by simp
next
  fix kvs :: "(string \<times> json) list" and x k v
  assume "x \<in> set (sort_key fst kvs)" "(k, v) = x"
  then have kv: "(k, v) \<in> set kvs" by simp
  have "size v \<le> size_prod (\<lambda>_. 0) size (k, v)" by simp
  also have "\<dots> \<le> size_list (size_prod (\<lambda>_. 0) size) kvs"
    using kv by (rule size_list_estimation') simp
  finally show "(v, JObj kvs) \<in> measure size" by simp
qed

subsection \<open>Checksum codec\<close>

text \<open>
  \<open>_hash_entry\<close>: the entry without its \<open>checksum\<close> key, dumped with sorted keys and
  hashed.
\<close>

definition hash_entry :: "(string \<Rightarrow> string) \<Rightarrow> entry \<Rightarrow> string" where
  "hash_entry H entry =
     (let entry_for_hash = filter (\<lambda>(k, v). k \<noteq> ''checksum'') entry
      in H (dumps (JObj entry_for_hash)))"

text \<open>
  \<open>verify_integrity\<close>: \<open>False\<close> when the entry has no checksum, else the stored
  checksum compared with the recomputed one. The stored value is any JSON value; it
  equals the computed str only when it is that str.
\<close>

definition verify_integrity :: "(string \<Rightarrow> string) \<Rightarrow> entry \<Rightarrow> bool" where
  "verify_integrity H entry =
     (if ''checksum'' \<notin> fst ` set entry then False
      else
        let stored_checksum = map_of entry ''checksum'';
            computed_checksum = hash_entry H entry
        in stored_checksum = Some (JStr computed_checksum))"

subsection \<open>SHA-256\<close>

text \<open>
  \<open>hashlib.sha256(s.encode()).hexdigest()\<close> after FIPS 180-4. \<open>s.encode()\<close> is UTF-8:
  one byte for a code point below 128, two bytes for the others below 256. The message
  is padded with the byte \<open>0x80\<close>, zero bytes up to 56 modulo 64 and its length in bits
  as eight bytes, read as big-endian 32-bit words and compressed in blocks of sixteen
  words; the digest is the eight words of the state in lower-case hex.
\<close>

definition utf8_encode :: "string \<Rightarrow> 8 word list" where
  "utf8_encode s = concat (map (\<lambda>c. let n = (of_char c :: nat) in
     if n < 128 then [of_nat n] else [of_nat (192 + n div 64), of_nat (128 + n mod 64)]) s)"

definition pad :: "8 word list \<Rightarrow> 8 word list" where
  "pad m = m @ [0x80] @ replicate ((119 - length m mod 64) mod 64) 0
     @ map (\<lambda>i. ucast (drop_bit (8 * (7 - i)) (8 * of_nat (length m) :: 64 word))) [0..<8]"

fun words_of :: "8 word list \<Rightarrow> 32 word list" where
  "words_of (a # b # c # d # bs) =
     (push_bit 24 (ucast a) OR push_bit 16 (ucast b) OR push_bit 8 (ucast c) OR ucast d)
       # words_of bs"
| "words_of _ = []"

fun blocks_of :: "nat \<Rightarrow> 32 word list \<Rightarrow> 32 word list list" where
  "blocks_of 0 ws = []"
| "blocks_of (Suc n) ws = take 16 ws # blocks_of n (drop 16 ws)"

text \<open>The round constants, in the eight rows of section 4.2.2 of the standard.\<close>

definition K256 :: "32 word list" where
  "K256 =
     [0x428a2f98, 0x71374491, 0xb5c0fbcf, 0xe9b5dba5,
      0x3956c25b, 0x59f111f1, 0x923f82a4, 0xab1c5ed5] @
     [0xd807aa98, 0x12835b01, 0x243185be, 0x550c7dc3,
      0x72be5d74, 0x80deb1fe, 0x9bdc06a7, 0xc19bf174] @
     [0xe49b69c1, 0xefbe4786, 0x0fc19dc6, 0x240ca1cc,
      0x2de92c6f, 0x4a7484aa, 0x5cb0a9dc, 0x76f988da] @
     [0x983e5152, 0xa831c66d, 0xb00327c8, 0xbf597fc7,
      0xc6e00bf3, 0xd5a79147, 0x06ca6351, 0x14292967] @
     [0x27b70a85, 0x2e1b2138, 0x4d2c6dfc, 0x53380d13,
      0x650a7354, 0x766a0abb, 0x81c2c92e, 0x92722c85] @
     [0xa2bfe8a1, 0xa81a664b, 0xc24b8b70, 0xc76c51a3,
      0xd192e819, 0xd6990624, 0xf40e3585, 0x106aa070] @
     [0x19a4c116, 0x1e376c08, 0x2748774c, 0x34b0bcb5,
      0x391c0cb3, 0x4ed8aa4a, 0x5b9cca4f, 0x682e6ff3] @
     [0x748f82ee, 0x78a5636f, 0x84c87814, 0x8cc70208,
      0x90befffa, 0xa4506ceb, 0xbef9a3f7, 0xc67178f2]"

definition ssig0 :: "32 word \<Rightarrow> 32 word" where
  "ssig0 x = word_rotr 7 x XOR word_rotr 18 x XOR drop_bit 3 x"

definition ssig1 :: "32 word \<Rightarrow> 32 word" where
  "ssig1 x = word_rotr 17 x XOR word_rotr 19 x XOR drop_bit 10 x"

definition bsig0 :: "32 word \<Rightarrow> 32 word" where
  "bsig0 x = word_rotr 2 x XOR word_rotr 13 x XOR word_rotr 22 x"

definition bsig1 :: "32 word \<Rightarrow> 32 word" where
  "bsig1 x = word_rotr 6 x XOR word_rotr 11 x XOR word_rotr 25 x"

fun schedule :: "nat \<Rightarrow> 32 word list \<Rightarrow> 32 word list" where
  "schedule 0 w = w"
| "schedule (Suc n) w = schedule n (w @ [ssig1 (w ! (length w - 2)) + w ! (length w - 7)
     + ssig0 (w ! (length w - 15)) + w ! (length w - 16)])"

type_synonym sha_state =
  "32 word \<times> 32 word \<times> 32 word \<times> 32 word \<times> 32 word \<times> 32 word \<times> 32 word \<times> 32 word"

fun sha_round :: "sha_state \<Rightarrow> 32 word \<times> 32 word \<Rightarrow> sha_state" where
  "sha_round (a, b, c, d, e, f, g, h) (k, w) =
     (let t1 = h + bsig1 e + ((e AND f) XOR (NOT e AND g)) + k + w;
          t2 = bsig0 a + ((a AND b) XOR (a AND c) XOR (b AND c))
      in (t1 + t2, a, b, c, d + t1, e, f, g))"

fun sha_add :: "sha_state \<Rightarrow> sha_state \<Rightarrow> sha_state" where
  "sha_add (a, b, c, d, e, f, g, h) (a', b', c', d', e', f', g', h') =
     (a + a', b + b', c + c', d + d', e + e', f + f', g + g', h + h')"

definition sha_block :: "sha_state \<Rightarrow> 32 word list \<Rightarrow> sha_state" where
  "sha_block st ws = sha_add st (foldl sha_round st (zip K256 (schedule 48 ws)))"

definition sha_init :: sha_state where
  "sha_init = (0x6a09e667, 0xbb67ae85, 0x3c6ef372, 0xa54ff53a,
               0x510e527f, 0x9b05688c, 0x1f83d9ab, 0x5be0cd19)"

definition hex32 :: "32 word \<Rightarrow> string" where
  "hex32 w = map (\<lambda>i. hex_digit (unat (drop_bit (4 * (7 - i)) w AND 0xF))) [0..<8]"

fun hex_state :: "sha_state \<Rightarrow> string" where
  "hex_state (a, b, c, d, e, f, g, h) =
     hex32 a @ hex32 b @ hex32 c @ hex32 d @ hex32 e @ hex32 f @ hex32 g @ hex32 h"

definition sha256_hexdigest :: "string \<Rightarrow> string" where
  "sha256_hexdigest s =
     (let m = pad (utf8_encode s)
      in hex_state (foldl sha_block sha_init (blocks_of (length m div 64) (words_of m))))"

subsection \<open>Evolution aggregate and engine state\<close>

text \<open>
  The evolution document as the engine writes it. The entries of its lists are dicts
  with fixed keys; the field prefixes \<open>pe_\<close>, \<open>ms_\<close>, \<open>su_\<close> and \<open>sm_\<close> keep the keys
  of the four kinds of entry apart.
\<close>

record pattern_entry =
  pe_timestamp :: string
  pe_pattern :: string
  pe_description :: string
  pe_evidence :: entry

record milestone_entry =
  ms_timestamp :: string
  ms_milestone :: string
  ms_description :: string
  ms_impact :: string

record understanding =
  su_understanding :: string
  su_connections :: "string list"
  su_learned :: string

record session_metadata =
  sm_session_id :: string
  sm_started :: string
  sm_context :: string
  sm_agent_version :: string

record evolution =
  created :: string
  total_sessions :: int
  total_thoughts :: int
  learning_milestones :: "milestone_entry list"
  pattern_recognition :: "pattern_entry list"
  system_understanding :: "(string \<times> understanding) list"
  external_signals_created :: int
  sessions :: "session_metadata list"

text \<open>
  The aggregate as the dict that \<open>_load_evolution\<close> builds and \<open>json.load\<close> reads
  back, with the keys in the order of that literal.
\<close>

definition milestone_json :: "milestone_entry \<Rightarrow> entry" where
  "milestone_json m =
     [(''timestamp'', JStr (ms_timestamp m)),
      (''milestone'', JStr (ms_milestone m)),
      (''description'', JStr (ms_description m)),
      (''impact'', JStr (ms_impact m))]"

definition pattern_json :: "pattern_entry \<Rightarrow> entry" where
  "pattern_json p =
     [(''timestamp'', JStr (pe_timestamp p)),
      (''pattern'', JStr (pe_pattern p)),
      (''description'', JStr (pe_description p)),
      (''evidence'', JObj (pe_evidence p))]"

definition understanding_json :: "understanding \<Rightarrow> entry" where
  "understanding_json u =
     [(''understanding'', JStr (su_understanding u)),
      (''connections'', JList (map JStr (su_connections u))),
      (''learned'', JStr (su_learned u))]"

definition session_json :: "session_metadata \<Rightarrow> entry" where
  "session_json m =
     [(''session_id'', JStr (sm_session_id m)),
      (''started'', JStr (sm_started m)),
      (''context'', JStr (sm_context m)),
      (''agent_version'', JStr (sm_agent_version m))]"

definition evolution_json :: "evolution \<Rightarrow> entry" where
  "evolution_json ev =
     [(''created'', JStr (created ev)),
      (''total_sessions'', JInt (total_sessions ev)),
      (''total_thoughts'', JInt (total_thoughts ev)),
      (''learning_milestones'',
         JList (map (\<lambda>m. JObj (milestone_json m)) (learning_milestones ev))),
      (''pattern_recognition'',
         JList (map (\<lambda>p. JObj (pattern_json p)) (pattern_recognition ev))),
      (''system_understanding'',
         JObj (map (\<lambda>(k, u). (k, JObj (understanding_json u))) (system_understanding ev))),
      (''external_signals_created'', JInt (external_signals_created ev)),
      (''sessions'', JList (map (\<lambda>m. JObj (session_json m)) (sessions ev)))]"

text \<open>
  An object of the caller that may share the aggregate: what it reads for each content
  of the aggregate.
\<close>

type_synonym 'a shared = "evolution \<Rightarrow> 'a"

definition unshared :: "'a \<Rightarrow> 'a shared" where
  "unshared x = (\<lambda>ev. x)"

text \<open>
  The engine object: the in-memory list \<open>thoughts\<close> of the record objects, the session
  file as the list of the records written to it (one per line, each as it read when it
  was written), the aggregate and the evolution file (\<open>None\<close> until it is first
  written).
\<close>

record engine =
  session_id :: string
  thoughts :: "entry shared list"
  session_file :: "entry list"
  evolution_data :: evolution
  evolution_file :: "evolution option"

definition EXTERNAL_INTEGRATION_AVAILABLE :: bool where
  "EXTERNAL_INTEGRATION_AVAILABLE = False"

definition load_evolution :: "string \<Rightarrow> evolution option \<Rightarrow> evolution" where
  "load_evolution now file =
     (case file of
        Some ev \<Rightarrow> ev
      | None \<Rightarrow> \<lparr>created = now, total_sessions = 0, total_thoughts = 0,
                 learning_milestones = [], pattern_recognition = [],
                 system_understanding = [], external_signals_created = 0,
                 sessions = []\<rparr>)"

definition save_evolution :: "engine \<Rightarrow> engine" where
  "save_evolution st = st\<lparr>evolution_file := Some (evolution_data st)\<rparr>"

definition log_session_start :: "string \<Rightarrow> engine \<Rightarrow> engine" where
  "log_session_start now st =
     (let session_metadata = \<lparr>sm_session_id = session_id st, sm_started = now,
            sm_context = ''EchoCopi Framework Session'',
            sm_agent_version = ''Generic AI Agent''\<rparr>;
          ev = evolution_data st;
          ev1 = ev\<lparr>total_sessions := total_sessions ev + 1\<rparr>;
          ev2 = ev1\<lparr>sessions := sessions ev1 @ [session_metadata]\<rparr>
      in save_evolution (st\<lparr>evolution_data := ev2\<rparr>))"

definition category_map :: "string \<Rightarrow> string" where
  "category_map thought_type =
     (case map_of
        [(''pattern_recognition'', ''code_pattern''),
         (''problem_solving'', ''solution_approach''),
         (''system_understanding'', ''architecture_insight''),
         (''user_interaction'', ''user_preference''),
         (''learning'', ''evolution_milestone'')] thought_type of
        None \<Rightarrow> ''general_insight''
      | Some c \<Rightarrow> c)"

text \<open>
  \<open>_create_external_signal\<close>; \<open>stamp\<close> is
  \<open>datetime.now().strftime('%Y%m%d_%H%M%S')\<close>.
\<close>

definition create_external_signal ::
    "string \<Rightarrow> string \<Rightarrow> string \<Rightarrow> entry option \<Rightarrow> engine \<Rightarrow> entry" where
  "create_external_signal stamp thought_type content context st =
     (let category = category_map thought_type
      in [(''topic'', JStr (''Echo_'' @ category @ ''_'' @ stamp)),
          (''content'', JObj
             [(''thought'', JStr content),
              (''type'', JStr thought_type),
              (''context'', (case context of None \<Rightarrow> JNull | Some c \<Rightarrow> JObj c)),
              (''value'', JStr ''AI insight for external system'')]),
          (''tags'', JList [JStr ''ai_thought'', JStr ''external_signal'', JStr category]),
          (''references'', JObj [(''session_id'', JStr (session_id st))])])"

text \<open>
  \<open>log_thought\<close>. \<open>now\<close> is the ISO time stamp of the record, \<open>stamp\<close> the one read
  by \<open>_create_external_signal\<close>. \<open>d[k] = v\<close> on a dict is \<open>AList.update\<close>: the value is
  replaced in place when the key exists and appended otherwise.

  The record object holds the context object (\<open>context or {}\<close>: a new empty dict when
  the context is \<open>None\<close> or empty), so it is \<open>shared\<close> too. The checksum is computed
  from what the record reads when line 238 runs, the line of the session file is what
  it reads when line 243 runs, and \<open>total_thoughts\<close> is incremented after both. The
  result is the returned record as it reads when \<open>log_thought\<close> returns, and the engine
  after the call.
\<close>

definition log_thought ::
    "(string \<Rightarrow> string) \<Rightarrow> string \<Rightarrow> string \<Rightarrow> string \<Rightarrow> string \<Rightarrow> entry shared option
       \<Rightarrow> bool \<Rightarrow> engine \<Rightarrow> entry \<times> engine" where
  "log_thought H now stamp thought_type content context create_signal st =
     (let context_or_empty =
            (case context of
               None \<Rightarrow> unshared []
             | Some c \<Rightarrow> if c (evolution_data st) = [] then unshared [] else c);
          thought_entry = (\<lambda>ev.
            [(''timestamp'', JStr now),
             (''session_id'', JStr (session_id st)),
             (''type'', JStr thought_type),
             (''content'', JStr content),
             (''context'', JObj (context_or_empty ev)),
             (''signal_created'', JBool False)]);
          (thought_entry1, st1) =
            (if create_signal \<and> EXTERNAL_INTEGRATION_AVAILABLE then
               let signal = create_external_signal stamp thought_type content
                              (map_option (\<lambda>c. c (evolution_data st)) context) st;
                   e1 = (\<lambda>ev. AList.update ''signal_created'' (JBool True) (thought_entry ev));
                   e2 = (\<lambda>ev. AList.update ''signal_topic''
                          (case map_of signal ''topic'' of
                             None \<Rightarrow> JStr ''unknown'' | Some t \<Rightarrow> t) (e1 ev));
                   ev = evolution_data st
               in (e2, st\<lparr>evolution_data :=
                            ev\<lparr>external_signals_created := external_signals_created ev + 1\<rparr>\<rparr>)
             else (thought_entry, st));
          checksum = hash_entry H (thought_entry1 (evolution_data st1));
          thought_entry2 = (\<lambda>ev. AList.update ''checksum'' (JStr checksum) (thought_entry1 ev));
          st2 = st1\<lparr>thoughts := thoughts st1 @ [thought_entry2],
                    session_file := session_file st1 @ [thought_entry2 (evolution_data st1)]\<rparr>;
          ev2 = evolution_data st2;
          st3 = save_evolution
                  (st2\<lparr>evolution_data := ev2\<lparr>total_thoughts := total_thoughts ev2 + 1\<rparr>\<rparr>)
      in (thought_entry2 (evolution_data st3), st3))"

text \<open>
  \<open>recognize_pattern\<close>: \<open>now\<close> stamps the pattern entry, \<open>now'\<close> the journal record.
  \<open>evidence\<close> is \<open>None\<close> or a dict; the pattern entry stores \<open>evidence or {}\<close>, the
  record's context stores \<open>evidence\<close> itself. This method and the three after it build
  the context dict themselves; their arguments are values that share nothing with the
  engine.
\<close>

definition recognize_pattern ::
    "(string \<Rightarrow> string) \<Rightarrow> string \<Rightarrow> string \<Rightarrow> string \<Rightarrow> string \<Rightarrow> string \<Rightarrow> entry option
       \<Rightarrow> bool \<Rightarrow> engine \<Rightarrow> entry \<times> engine" where
  "recognize_pattern H now now' stamp pattern_name description evidence notify_external st =
     (let content = ''Pattern Recognized: '' @ pattern_name @ [newline] @ description;
          pattern_entry = \<lparr>pe_timestamp = now, pe_pattern = pattern_name,
            pe_description = description,
            pe_evidence = (case evidence of None \<Rightarrow> [] | Some e \<Rightarrow> e)\<rparr>;
          ev = evolution_data st;
          st1 = (if pattern_name \<notin> set (map pe_pattern (pattern_recognition ev)) then
                   save_evolution
                     (st\<lparr>evolution_data :=
                          ev\<lparr>pattern_recognition := pattern_recognition ev @ [pattern_entry]\<rparr>\<rparr>)
                 else st)
      in log_thought H now' stamp ''pattern_recognition'' content
           (Some (unshared
              [(''pattern'', JStr pattern_name),
               (''evidence'', (case evidence of None \<Rightarrow> JNull | Some e \<Rightarrow> JObj e))]))
           notify_external st1)"

definition learn_preference ::
    "(string \<Rightarrow> string) \<Rightarrow> string \<Rightarrow> string \<Rightarrow> string \<Rightarrow> string \<Rightarrow> string list option
       \<Rightarrow> bool \<Rightarrow> engine \<Rightarrow> entry \<times> engine" where
  "learn_preference H now stamp preference_name description examples notify_external st =
     (let content = ''Learned Preference: '' @ preference_name @ [newline] @ description
      in log_thought H now stamp ''user_interaction'' content
           (Some (unshared
              [(''preference'', JStr preference_name),
               (''examples'',
                  JList (map JStr (case examples of None \<Rightarrow> [] | Some xs \<Rightarrow> xs)))]))
           notify_external st)"

definition understand_system ::
    "(string \<Rightarrow> string) \<Rightarrow> string \<Rightarrow> string \<Rightarrow> string \<Rightarrow> string \<Rightarrow> string
       \<Rightarrow> string list option \<Rightarrow> bool \<Rightarrow> engine \<Rightarrow> entry \<times> engine" where
  "understand_system H now now' stamp component understanding connections notify_external st =
     (let content = ''System Understanding: '' @ component @ [newline] @ understanding;
          conns = (case connections of None \<Rightarrow> [] | Some xs \<Rightarrow> xs);
          ev = evolution_data st;
          st1 = save_evolution
                  (st\<lparr>evolution_data :=
                       ev\<lparr>system_understanding :=
                            AList.update component
                              \<lparr>su_understanding = understanding, su_connections = conns,
                               su_learned = now\<rparr>
                              (system_understanding ev)\<rparr>\<rparr>)
      in log_thought H now' stamp ''system_understanding'' content
           (Some (unshared
              [(''component'', JStr component),
               (''connections'', JList (map JStr conns))]))
           notify_external st1)"

definition milestone ::
    "(string \<Rightarrow> string) \<Rightarrow> string \<Rightarrow> string \<Rightarrow> string \<Rightarrow> string \<Rightarrow> string \<Rightarrow> string
       \<Rightarrow> bool \<Rightarrow> engine \<Rightarrow> entry \<times> engine" where
  "milestone H now now' stamp milestone_name description impact notify_external st =
     (let milestone_entry = \<lparr>ms_timestamp = now, ms_milestone = milestone_name,
            ms_description = description, ms_impact = impact\<rparr>;
          ev = evolution_data st;
          st1 = save_evolution
                  (st\<lparr>evolution_data :=
                       ev\<lparr>learning_milestones := learning_milestones ev @ [milestone_entry]\<rparr>\<rparr>);
          content = ''Milestone: '' @ milestone_name @ [newline] @ description
                      @ [newline] @ ''Impact: '' @ impact
      in log_thought H now' stamp ''learning'' content
           (Some (unshared (milestone_json milestone_entry))) notify_external st1)"

subsection \<open>Session verification\<close>

record report =
  rep_session_file :: string
  total_entries :: nat
  verified :: nat
  tampered :: nat
  missing_checksum :: nat
  integrity_rate :: string

text \<open>
  The test \<open>"checksum" in entry\<close> on what \<open>json.loads\<close> returned: key membership
  for a dict, element membership for a list, substring for a str, \<open>TypeError\<close> for
  \<open>None\<close>, a bool or an int.
\<close>

definition has_checksum :: "json \<Rightarrow> py_error + bool" where
  "has_checksum j =
     (case j of
        JObj e \<Rightarrow> Inr (''checksum'' \<in> fst ` set e)
      | JList xs \<Rightarrow> Inr (JStr ''checksum'' \<in> set xs)
      | JStr s \<Rightarrow> Inr (sublist ''checksum'' s)
      | _ \<Rightarrow> Inl TypeError)"

text \<open>
  The loop of \<open>verify_session\<close> over the lines of the file. A line is \<open>None\<close> when
  \<open>json.loads\<close> raises on it and \<open>Some j\<close> when it parses to \<open>j\<close>. The counters are
  \<open>(verified, tampered, missing_checksum)\<close>. A list or a str that passes the
  membership test reaches \<open>entry["checksum"]\<close> in \<open>verify_integrity\<close>, a
  \<open>TypeError\<close>.
\<close>

fun count_lines ::
    "(string \<Rightarrow> string) \<Rightarrow> json option list \<Rightarrow> nat \<times> nat \<times> nat
       \<Rightarrow> py_error + (nat \<times> nat \<times> nat)" where
  "count_lines H [] acc = Inr acc"
| "count_lines H (None # ls) acc = Inl JSONDecodeError"
| "count_lines H (Some j # ls) (v, t, m) =
     (case has_checksum j of
        Inl err \<Rightarrow> Inl err
      | Inr False \<Rightarrow> count_lines H ls (v, t, m + 1)
      | Inr True \<Rightarrow>
          (case j of
             JObj e \<Rightarrow>
               if verify_integrity H e then count_lines H ls (v + 1, t, m)
               else count_lines H ls (v, t + 1, m)
           | _ \<Rightarrow> Inl TypeError))"

text \<open>
  \<open>verify_session\<close>. \<open>fmt_rate verified total\<close> stands for the float expression
  \<open>f"{(verified/total)*100:.1f}%"\<close>, which is evaluated only when \<open>total > 0\<close>.
\<close>

definition verify_session ::
    "(string \<Rightarrow> string) \<Rightarrow> (nat \<Rightarrow> nat \<Rightarrow> string) \<Rightarrow> string \<Rightarrow> json option list
       \<Rightarrow> py_error + report" where
  "verify_session H fmt_rate path lines =
     (case count_lines H lines (0, 0, 0) of
        Inl err \<Rightarrow> Inl err
      | Inr (v, t, m) \<Rightarrow>
          let total = v + t + m
          in Inr \<lparr>rep_session_file = path, total_entries = total, verified = v,
                  tampered = t, missing_checksum = m,
                  integrity_rate = (if total > 0 then fmt_rate v total else ''N/A'')\<rparr>)"

subsection \<open>Resume on startup\<close>

text \<open>
  What \<open>resume_on_startup\<close> reads. \<open>state.json\<close> is missing, unreadable
  (\<open>read_text\<close> or \<open>json.loads\<close> raises) or parses to a value. \<open>plan_file_of n\<close> is
  \<open>str(self.echo_paths["plans"] / n)\<close>, \<open>path_exists\<close> says which paths exist, and
  \<open>checkpoint_names\<close> lists the names in the checkpoint directory in the order the
  directory scan yields them.
\<close>

datatype state_file = Missing | Unreadable | Parsed json

record echo_fs =
  state_json :: state_file
  plan_file_of :: "string \<Rightarrow> string"
  path_exists :: "string \<Rightarrow> bool"
  checkpoint_names :: "string list"

record resume_payload =
  rp_state :: json
  rp_plan_file :: string
  completed_steps :: "int list"
  next_step :: int

datatype resume = NoResume | RawState json | Payload resume_payload

datatype message =
    ResumeSkipped
  | PlanFileMissing string
  | ResumeInfo string "int list" int

text \<open>Truth value of a Python object, as \<open>not plan_name\<close> tests it.\<close>

fun truthy :: "json \<Rightarrow> bool" where
  "truthy JNull = False"
| "truthy (JBool b) = b"
| "truthy (JInt i) = (i \<noteq> 0)"
| "truthy (JStr s) = (s \<noteq> [])"
| "truthy (JList xs) = (xs \<noteq> [])"
| "truthy (JObj kvs) = (kvs \<noteq> [])"

text \<open>The names that \<open>glob("step-*.ok")\<close> yields: prefix \<open>step-\<close>, suffix \<open>.ok\<close>.\<close>

definition glob_match :: "string \<Rightarrow> bool" where
  "glob_match name =
     (8 \<le> length name \<and> take 5 name = ''step-'' \<and> drop (length name - 3) name = ''.ok'')"

text \<open>
  \<open>PurePath.stem\<close>: the name up to its last dot, when that dot is neither the first
  nor the last character; else the whole name.
\<close>

definition stem :: "string \<Rightarrow> string" where
  "stem name =
     (if CHR ''.'' \<notin> set name then name
      else
        let after = length (takeWhile (\<lambda>c. c \<noteq> CHR ''.'') (rev name));
            i = length name - after - 1
        in if 0 < i \<and> 0 < after then take i name else name)"

text \<open>\<open>s.split("-", 1)[1]\<close>: what follows the first dash; \<open>IndexError\<close> is \<open>None\<close>.\<close>

definition after_dash :: "string \<Rightarrow> string option" where
  "after_dash s =
     (if CHR ''-'' \<in> set s then Some (tl (dropWhile (\<lambda>c. c \<noteq> CHR ''-'') s)) else None)"

text \<open>
  \<open>int(s)\<close> on a str, base 10; \<open>ValueError\<close> is \<open>None\<close>. White space at both ends
  is dropped, one sign is allowed, then come decimal digits, where single underscores
  may stand between two digits. Leading zeros are allowed.
\<close>

definition is_space :: "char \<Rightarrow> bool" where
  "is_space c =
     (let n = (of_char c :: nat)
      in (9 \<le> n \<and> n \<le> 13) \<or> n = 32 \<or> n = 133 \<or> n = 160)"

definition is_digit :: "char \<Rightarrow> bool" where
  "is_digit c = (48 \<le> (of_char c :: nat) \<and> (of_char c :: nat) \<le> 57)"

definition digit_val :: "char \<Rightarrow> nat" where
  "digit_val c = (of_char c :: nat) - 48"

definition strip :: "string \<Rightarrow> string" where
  "strip s = rev (dropWhile is_space (rev (dropWhile is_space s)))"

fun parse_digits :: "string \<Rightarrow> nat \<Rightarrow> nat option" where
  "parse_digits [] acc = Some acc"
| "parse_digits [c] acc = (if is_digit c then Some (acc * 10 + digit_val c) else None)"
| "parse_digits (c # d # cs) acc =
     (if is_digit c then parse_digits (d # cs) (acc * 10 + digit_val c)
      else if c = CHR ''_'' \<and> is_digit d then parse_digits cs (acc * 10 + digit_val d)
      else None)"

definition parse_nat :: "string \<Rightarrow> nat option" where
  "parse_nat s =
     (case s of
        [] \<Rightarrow> None
      | c # cs \<Rightarrow> if is_digit c then parse_digits cs (digit_val c) else None)"

definition py_int :: "string \<Rightarrow> int option" where
  "py_int s =
     (case strip s of
        [] \<Rightarrow> None
      | c # cs \<Rightarrow>
          if c = CHR ''-'' then map_option (\<lambda>n. - int n) (parse_nat cs)
          else if c = CHR ''+'' then map_option int (parse_nat cs)
          else map_option int (parse_nat (c # cs)))"

text \<open>
  The loop over the markers: a marker whose number does not parse is skipped, every
  other one appends its number to \<open>completed_steps\<close>.
\<close>

fun parse_markers :: "string list \<Rightarrow> int list" where
  "parse_markers [] = []"
| "parse_markers (marker # ms) =
     (case after_dash (stem marker) of
        None \<Rightarrow> parse_markers ms
      | Some t \<Rightarrow>
          (case py_int t of
             None \<Rightarrow> parse_markers ms
           | Some n \<Rightarrow> n # parse_markers ms))"

text \<open>
  \<open>resume_on_startup\<close>: the printed messages and the returned value. A state that
  is not a dict has no \<open>get\<close> (\<open>AttributeError\<close>); a plan name that is true but not
  a str cannot be joined to a path (\<open>TypeError\<close>).
\<close>

definition resume_on_startup :: "echo_fs \<Rightarrow> message list \<times> (py_error + resume)" where
  "resume_on_startup fs =
     (case state_json fs of
        Missing \<Rightarrow> ([], Inr NoResume)
      | Unreadable \<Rightarrow> ([ResumeSkipped], Inr NoResume)
      | Parsed state \<Rightarrow>
          (case state of
             JObj kvs \<Rightarrow>
               let plan_name = (case map_of kvs ''current_plan'' of
                                  None \<Rightarrow> JNull | Some v \<Rightarrow> v)
               in if \<not> truthy plan_name then ([], Inr (RawState state))
                  else
                    (case plan_name of
                       JStr p \<Rightarrow>
                         let plan_file = plan_file_of fs p
                         in if \<not> path_exists fs plan_file then
                              ([PlanFileMissing p], Inr (RawState state))
                            else
                              let completed =
                                    parse_markers (filter glob_match (checkpoint_names fs));
                                  next = (if completed \<noteq> [] then Max (set completed) + 1
                                          else 1);
                                  payload = \<lparr>rp_state = state, rp_plan_file = plan_file,
                                    completed_steps = sort completed, next_step = next\<rparr>
                              in ([ResumeInfo p (completed_steps payload) (next_step payload)],
                                  Inr (Payload payload))
                     | _ \<Rightarrow> ([], Inl TypeError))
           | _ \<Rightarrow> ([], Inl AttributeError)))"

subsection \<open>Dicts as association lists\<close>

text \<open>
  A Python dict has no repeated key: \<open>wf_json\<close> holds of the association lists that
  stand for one, at every level of nesting.
\<close>

fun wf_json :: "json \<Rightarrow> bool" where
  "wf_json (JList xs) = (\<forall>x \<in> set xs. wf_json x)"
| "wf_json (JObj kvs) = (distinct (map fst kvs) \<and> (\<forall>v \<in> snd ` set kvs. wf_json v))"
| "wf_json _ = True"

text \<open>
  Python's equality of two values built from dicts and lists: two lists are equal when
  their elements are, in order; two dicts are equal when they have the same number of
  items and every key of the first is a key of the second with an equal value, whatever
  the insertion orders. Other values are compared as they are (a bool is not taken for
  an int here, so the relation is finer than \<open>==\<close> on that point).
\<close>

fun same_items :: "json \<Rightarrow> json \<Rightarrow> bool" where
  "same_items (JList xs) (JList ys) = list_all2 same_items xs ys"
| "same_items (JObj a) (JObj b) =
     (length a = length b \<and>
      (\<forall>(k, v) \<in> set a. case map_of b k of None \<Rightarrow> False | Some w \<Rightarrow> same_items v w))"
| "same_items x y = (x = y)"

subsection \<open>Notions used in the proofs\<close>

text \<open>
  \<open>hashed_text\<close> is the str that \<open>_hash_entry\<close> hands to the hash. \<open>item\<close> is the
  text of one dict item, \<open>item_rel\<close> relates two items with the same key and related
  values, \<open>nodigit\<close> holds of a text that does not start with a digit,
  \<open>digits_val\<close> reads a digit string, and \<open>tag\<close> and \<open>char_tag\<close> number the
  constructors of \<open>json\<close> and the first characters of their texts.
\<close>

definition hashed_text :: "entry \<Rightarrow> string" where
  "hashed_text e = dumps (JObj (filter (\<lambda>(k, v). k \<noteq> ''checksum'') e))"

definition item :: "string \<times> json \<Rightarrow> string" where
  "item p = encode_basestring_ascii (fst p) @ '': '' @ dumps (snd p)"

definition item_rel :: "(json \<Rightarrow> json \<Rightarrow> bool) \<Rightarrow> string \<times> json \<Rightarrow> string \<times> json \<Rightarrow> bool" where
  "item_rel R p q = (fst p = fst q \<and> R (snd p) (snd q))"





subsection \<open>Sequences of calls\<close>

text \<open>
  One call of a method of the engine that changes it, with its arguments, and the
  engine after a list of such calls.
\<close>

datatype call =
    SessionStart string
  | LogThought string string string string "entry shared option" bool
  | RecognizePattern string string string string string "entry option" bool
  | LearnPreference string string string string "string list option" bool
  | UnderstandSystem string string string string string "string list option" bool
  | Milestone string string string string string string bool

fun step :: "(string \<Rightarrow> string) \<Rightarrow> call \<Rightarrow> engine \<Rightarrow> engine" where
  "step H (SessionStart now) st = log_session_start now st"
| "step H (LogThought now stamp ty c ctx sig) st = snd (log_thought H now stamp ty c ctx sig st)"
| "step H (RecognizePattern now now' stamp n d ev sig) st =
     snd (recognize_pattern H now now' stamp n d ev sig st)"
| "step H (LearnPreference now stamp n d ex sig) st =
     snd (learn_preference H now stamp n d ex sig st)"
| "step H (UnderstandSystem now now' stamp c u cs sig) st =
     snd (understand_system H now now' stamp c u cs sig st)"
| "step H (Milestone now now' stamp n d i sig) st =
     snd (milestone H now now' stamp n d i sig st)"

fun run :: "(string \<Rightarrow> string) \<Rightarrow> call list \<Rightarrow> engine \<Rightarrow> engine" where
  "run H [] st = st"
| "run H (c # cs) st = run H cs (step H c st)"

definition counters_le :: "engine \<Rightarrow> engine \<Rightarrow> bool" where
  "counters_le st st' =
     (total_sessions (evolution_data st) \<le> total_sessions (evolution_data st')
      \<and> total_thoughts (evolution_data st) \<le> total_thoughts (evolution_data st')
      \<and> external_signals_created (evolution_data st)
           \<le> external_signals_created (evolution_data st'))"

subsection \<open>Concrete inputs\<close>

text \<open>
  A digest that keeps its input stands in for SHA-256 where a concrete hash is needed;
  an engine right after its first session start with one recognised pattern; a state
  directory with a plan and three checkpoint markers, and the same directory with a
  fourth marker \<open>step-01.ok\<close>.
\<close>

definition plain_digest :: "string \<Rightarrow> string" where
  "plain_digest s = s"

definition engine0 :: engine where
  "engine0 =
     \<lparr>session_id = ''20251027_120000'', thoughts = [], session_file = [],
      evolution_data =
        \<lparr>created = ''2025-10-27T12:00:00'', total_sessions = 1, total_thoughts = 0,
         learning_milestones = [],
         pattern_recognition =
           [\<lparr>pe_timestamp = ''2025-10-27T12:00:01'', pe_pattern = ''Clean Architecture'',
             pe_description = ''first description'', pe_evidence = []\<rparr>],
         system_understanding = [], external_signals_created = 0,
         sessions = [\<lparr>sm_session_id = ''20251027_120000'',
                      sm_started = ''2025-10-27T12:00:00'',
                      sm_context = ''EchoCopi Framework Session'',
                      sm_agent_version = ''Generic AI Agent''\<rparr>]\<rparr>,
      evolution_file = None\<rparr>"

definition plan_path0 :: "string \<Rightarrow> string" where
  "plan_path0 n = ''.echo_memory/echo_state/plan/'' @ n"

definition exists0 :: "string \<Rightarrow> bool" where
  "exists0 p = (p = ''.echo_memory/echo_state/plan/deploy.md'')"

definition state0 :: "(string \<times> json) list" where
  "state0 = [(''version'', JInt 1), (''current_plan'', JStr ''deploy.md''),
             (''current_step'', JInt 2), (''args'', JObj [])]"

definition fs0 :: echo_fs where
  "fs0 = \<lparr>state_json = Parsed (JObj state0), plan_file_of = plan_path0,
           path_exists = exists0,
           checkpoint_names = [''step-1.ok'', ''step-3.ok'', ''step-2.ok'']\<rparr>"

definition fs_dup :: echo_fs where
  "fs_dup = \<lparr>state_json = Parsed (JObj state0), plan_file_of = plan_path0,
              path_exists = exists0,
              checkpoint_names = [''step-1.ok'', ''step-3.ok'', ''step-01.ok'', ''step-2.ok'']\<rparr>"

definition fs_noplan :: echo_fs where
  "fs_noplan = \<lparr>state_json = Parsed (JObj state0), plan_file_of = plan_path0,
                 path_exists = (\<lambda>p. False),
                 checkpoint_names = [''step-1.ok'']\<rparr>"

text \<open>
  The call \<open>engine.log_thought("learning", "hello", context=engine.evolution_data)\<close> on
  that engine, and the fields of its record, without the checksum, when the aggregate
  holds \<open>total_thoughts = n\<close>. \<open>line_of H c\<close> is the line that
  \<open>engine.log_thought("learning", c)\<close> writes to the session file.
\<close>

definition shared_call :: "(string \<Rightarrow> string) \<Rightarrow> entry \<times> engine" where
  "shared_call H = log_thought H ''2025-10-27T12:00:05'' ''20251027_120005'' ''learning''
     ''hello'' (Some evolution_json) False engine0"

definition shared_fields :: "int \<Rightarrow> entry" where
  "shared_fields n =
     [(''timestamp'', JStr ''2025-10-27T12:00:05''),
      (''session_id'', JStr ''20251027_120000''),
      (''type'', JStr ''learning''),
      (''content'', JStr ''hello''),
      (''context'', JObj (evolution_json ((evolution_data engine0)\<lparr>total_thoughts := n\<rparr>))),
      (''signal_created'', JBool False)]"

definition line_of :: "(string \<Rightarrow> string) \<Rightarrow> string \<Rightarrow> entry" where
  "line_of H c = last (session_file (snd (log_thought H ''2025-10-27T12:00:05''
     ''20251027_120005'' ''learning'' c None False engine0)))"

text \<open>
  Two records with the same items in different insertion orders, at the top level and
  in the nested context, and two contexts that differ in one sub-field.
\<close>

definition rec_a :: entry where
  "rec_a = [(''type'', JStr ''learning''),
            (''context'', JObj [(''file'', JStr ''a.py''), (''lines'', JList [JInt 3, JInt (- 4)])])]"

definition rec_b :: entry where
  "rec_b = [(''context'', JObj [(''lines'', JList [JInt 3, JInt (- 4)]), (''file'', JStr ''a.py'')]),
            (''type'', JStr ''learning'')]"



section \<open>Properties\<close>

subsection \<open>Checksums of appended records\<close>

lemma filter_update_same:
  "filter (\<lambda>(k', v'). k' \<noteq> k) (AList.update k v e) = filter (\<lambda>(k', v'). k' \<noteq> k) e"
  by (induction e) auto

lemma hash_entry_update_checksum:
  "hash_entry H (AList.update ''checksum'' v e) = hash_entry H e"
  by (simp add: hash_entry_def filter_update_same)

lemma verify_integrity_sealed:
  "verify_integrity H (AList.update ''checksum'' (JStr (hash_entry H e)) e)"
  by (simp add: verify_integrity_def hash_entry_update_checksum update_conv' dom_update)

lemma unshared_apply [simp]: "unshared x ev = x"
  by (simp add: unshared_def)

text \<open>
  The line that \<open>log_thought\<close> writes to the session file carries the checksum of its
  own fields, so it verifies, whatever the context shares.
\<close>

lemma log_thought_persisted_sealed:
  "\<exists>e. last (session_file (snd (log_thought H now stamp ty c ctx sig st)))
         = AList.update ''checksum'' (JStr (hash_entry H e)) e"
  unfolding log_thought_def Let_def case_prod_beta
  apply (simp add: save_evolution_def split del: if_split)
  apply (rule exI)
  apply (rule refl)
  done

lemma log_thought_persisted_verifies:
  "verify_integrity H (last (session_file (snd (log_thought H now stamp ty c ctx sig st))))"
proof -
  obtain e where "last (session_file (snd (log_thought H now stamp ty c ctx sig st)))
      = AList.update ''checksum'' (JStr (hash_entry H e)) e"
    using log_thought_persisted_sealed by blast
  then show ?thesis by (simp only: verify_integrity_sealed)
qed

text \<open>
  With a context that shares nothing with the engine the returned record is the line
  written to the session file, and the record object reads the same at any time.
\<close>

lemma log_thought_unshared:
  assumes "ctx = None \<or> (\<exists>x. ctx = Some (unshared x))"
  shows "thoughts (snd (log_thought H now stamp ty c ctx sig st))
       = thoughts st @ [unshared (fst (log_thought H now stamp ty c ctx sig st))]"
    and "session_file (snd (log_thought H now stamp ty c ctx sig st))
       = session_file st @ [fst (log_thought H now stamp ty c ctx sig st)]"
  using assms
  by (auto simp add: log_thought_def Let_def save_evolution_def unshared_def split: prod.split)

lemma log_thought_unshared_verifies:
  assumes "ctx = None \<or> (\<exists>x. ctx = Some (unshared x))"
  shows "verify_integrity H (fst (log_thought H now stamp ty c ctx sig st))"
proof -
  have "last (session_file (snd (log_thought H now stamp ty c ctx sig st)))
      = fst (log_thought H now stamp ty c ctx sig st)"
    by (simp add: log_thought_unshared(2) [OF assms])
  with log_thought_persisted_verifies [of H now stamp ty c ctx sig st] show ?thesis by simp
qed

lemma hashed_text_update_checksum:
  "hashed_text (AList.update ''checksum'' v e) = hashed_text e"
  by (simp add: hashed_text_def filter_update_same)

lemma shared_texts_differ:
  "hashed_text (shared_fields 1) \<noteq> hashed_text (shared_fields 0)"
  by code_simp

lemma shared_call_returned:
  "fst (shared_call H) =
     AList.update ''checksum'' (JStr (H (hashed_text (shared_fields 0)))) (shared_fields 1)"
  by (simp add: shared_call_def log_thought_def Let_def save_evolution_def hash_entry_def
      hashed_text_def EXTERNAL_INTEGRATION_AVAILABLE_def evolution_json_def engine0_def
      shared_fields_def)


text \<open>
  Claim C1. The claim is that every record that \<open>log_thought\<close> returns verifies right
  after its creation. It fails when the context is the engine's own aggregate:
  \<open>engine.log_thought("learning", "hello", context=engine.evolution_data)\<close> sets the
  checksum while the context reads \<open>total_thoughts = 0\<close> and then increments
  \<open>total_thoughts\<close>, so the returned record reads \<open>total_thoughts = 1\<close> under a
  checksum of the text with \<open>0\<close>. The two texts differ, and \<open>verify_integrity\<close> is
  true of the returned record only if the hash gives both the same digest. (The line
  in the session file was written before the increment and verifies,
  \<open>log_thought_persisted_verifies\<close>; so does the returned record when the context
  shares nothing with the engine, \<open>log_thought_unshared_verifies\<close>.)
\<close>

theorem C1_shared_context_fails:
  "fst (shared_call H)
     = AList.update ''checksum'' (JStr (H (hashed_text (shared_fields 0)))) (shared_fields 1)
   \<and> hashed_text (shared_fields 1) \<noteq> hashed_text (shared_fields 0)
   \<and> verify_integrity H (fst (shared_call H))
       = (H (hashed_text (shared_fields 0)) = H (hashed_text (shared_fields 1)))"
proof -
  have "verify_integrity H (fst (shared_call H))
       = (H (hashed_text (shared_fields 0)) = H (hashed_text (shared_fields 1)))"
    unfolding shared_call_returned
    by (simp add: verify_integrity_def hash_entry_def hashed_text_def filter_update_same
        update_conv' dom_update Let_def)
  with shared_call_returned shared_texts_differ show ?thesis by blast
qed

text \<open>
  Claim C6. On a record without a \<open>checksum\<close> key \<open>verify_integrity\<close> returns
  \<open>False\<close>; it has no failing branch before that return. The loop of
  \<open>verify_session\<close> counts such a record under \<open>missing_checksum\<close> and under
  neither \<open>tampered\<close> nor \<open>verified\<close>, and a file holding only that record is
  reported with \<open>missing_checksum = 1\<close> and \<open>tampered = 0\<close>.
\<close>

theorem C6_missing_checksum:
  assumes "''checksum'' \<notin> fst ` set entry"
  shows "verify_integrity H entry = False
       \<and> count_lines H (Some (JObj entry) # ls) (v, t, m) = count_lines H ls (v, t, m + 1)
       \<and> verify_session H fmt_rate path [Some (JObj entry)] =
           Inr \<lparr>rep_session_file = path, total_entries = 1, verified = 0, tampered = 0,
                missing_checksum = 1, integrity_rate = fmt_rate 0 1\<rparr>"
  using assms by (simp add: verify_integrity_def has_checksum_def verify_session_def)

theorem C6_missing_checksum_witness:
  "''checksum'' \<notin> fst ` set [(''type'', JStr ''learning''), (''content'', JStr ''x'')]
   \<and> verify_integrity plain_digest [(''type'', JStr ''learning''), (''content'', JStr ''x'')]
       = False
   \<and> verify_session plain_digest (\<lambda>a b. ''0.0%'') ''session.jsonl''
         [Some (JObj [(''type'', JStr ''learning''), (''content'', JStr ''x'')])] =
       Inr \<lparr>rep_session_file = ''session.jsonl'', total_entries = 1, verified = 0,
            tampered = 0, missing_checksum = 1, integrity_rate = ''0.0%''\<rparr>"
proof -
  have h: "''checksum'' \<notin> fst ` set [(''type'', JStr ''learning''), (''content'', JStr ''x'')]"
    by simp
  from C6_missing_checksum [OF h, of plain_digest "[]" 0 0 0 "\<lambda>a b. ''0.0%''" "''session.jsonl''"]
  show ?thesis using h by blast
qed

text \<open>
  Claim C7. For a session file without any line \<open>verify_session\<close> returns a report
  with \<open>total_entries = 0\<close> and \<open>integrity_rate = "N/A"\<close>; it returns no error,
  and the rate is not computed by a division.
\<close>

theorem C7_empty_session:
  "verify_session H fmt_rate path [] =
     Inr \<lparr>rep_session_file = path, total_entries = 0, verified = 0, tampered = 0,
          missing_checksum = 0, integrity_rate = ''N/A''\<rparr>"
  by (simp add: verify_session_def)

theorem C7_empty_session_witness:
  "verify_session plain_digest (\<lambda>a b. ''never'') ''session.jsonl'' [] =
     Inr \<lparr>rep_session_file = ''session.jsonl'', total_entries = 0, verified = 0,
          tampered = 0, missing_checksum = 0, integrity_rate = ''N/A''\<rparr>"
  by (rule C7_empty_session)

subsection \<open>The evolution aggregate\<close>

lemma log_thought_patterns:
  "pattern_recognition (evolution_data (snd (log_thought H now stamp ty c ctx sig st)))
     = pattern_recognition (evolution_data st)"
  by (simp add: log_thought_def Let_def save_evolution_def split: prod.split)

lemma log_thought_evolution:
  "evolution_data (snd (log_thought H now stamp ty c ctx sig st)) =
     (if sig \<and> EXTERNAL_INTEGRATION_AVAILABLE
      then (evolution_data st)\<lparr>
             external_signals_created := external_signals_created (evolution_data st) + 1,
             total_thoughts := total_thoughts (evolution_data st) + 1\<rparr>
      else (evolution_data st)\<lparr>total_thoughts := total_thoughts (evolution_data st) + 1\<rparr>)"
  by (simp add: log_thought_def Let_def save_evolution_def split: prod.split)


text \<open>
  Claim C3. When the pattern list of the aggregate already holds an entry with the
  given name, \<open>recognize_pattern\<close> with that name and any description leaves the
  pattern list as it was: its length is unchanged and the entry of that name keeps the
  description recorded first.
\<close>

theorem C3_duplicate_pattern:
  assumes "pattern_name \<in> set (map pe_pattern (pattern_recognition (evolution_data st)))"
  shows "pattern_recognition (evolution_data (snd (recognize_pattern H now now' stamp
            pattern_name description evidence notify_external st)))
         = pattern_recognition (evolution_data st)"
  using assms by (simp add: recognize_pattern_def Let_def log_thought_patterns)

theorem C3_duplicate_pattern_witness:
  "''Clean Architecture'' \<in> set (map pe_pattern (pattern_recognition (evolution_data engine0)))
   \<and> map pe_description
       (pattern_recognition (evolution_data (snd (recognize_pattern plain_digest
          ''2025-10-27T12:00:07'' ''2025-10-27T12:00:08'' ''20251027_120008''
          ''Clean Architecture'' ''second description'' None True engine0))))
     = [''first description'']"
proof -
  have h: "''Clean Architecture''
             \<in> set (map pe_pattern (pattern_recognition (evolution_data engine0)))"
    by (simp add: engine0_def)
  have "map pe_description (pattern_recognition (evolution_data engine0))
          = [''first description'']"
    by (simp add: engine0_def)
  with C3_duplicate_pattern [OF h] h show ?thesis by simp
qed



lemma step_counters: "counters_le st (step H c st)"
  by (cases c)
     (simp_all add: counters_le_def log_thought_evolution log_session_start_def
        recognize_pattern_def learn_preference_def understand_system_def milestone_def
        save_evolution_def Let_def)

lemma counters_le_trans: "counters_le a b \<Longrightarrow> counters_le b c \<Longrightarrow> counters_le a c"
  by (auto simp: counters_le_def)

lemma run_counters: "counters_le st (run H cs st)"
proof (induction cs arbitrary: st)
  case Nil
  show ?case by (simp add: counters_le_def)
next
  case (Cons c cs)
  have "counters_le st (step H c st)" by (rule step_counters)
  moreover have "counters_le (step H c st) (run H cs (step H c st))" by (rule Cons.IH)
  ultimately show ?case by (simp add: counters_le_trans)
qed

text \<open>
  Claim C9. The counters \<open>total_sessions\<close>, \<open>total_thoughts\<close> and
  \<open>external_signals_created\<close> never decrease: after any list of calls (session
  start, journal append, pattern, preference, understanding and milestone recording)
  each counter is at least what it was before.
\<close>

theorem C9_counters_monotone:
  "total_sessions (evolution_data st) \<le> total_sessions (evolution_data (run H cs st))
   \<and> total_thoughts (evolution_data st) \<le> total_thoughts (evolution_data (run H cs st))
   \<and> external_signals_created (evolution_data st)
        \<le> external_signals_created (evolution_data (run H cs st))"
  using run_counters [of st H cs] by (simp add: counters_le_def)

theorem C9_counters_monotone_witness:
  "total_sessions (evolution_data engine0)
     \<le> total_sessions (evolution_data (run plain_digest
          [SessionStart ''2025-10-27T13:00:00'',
           Milestone ''2025-10-27T13:00:01'' ''2025-10-27T13:00:02'' ''20251027_130002''
             ''Framework Mastery'' ''core loop'' ''faster'' True] engine0))
   \<and> total_thoughts (evolution_data engine0)
     \<le> total_thoughts (evolution_data (run plain_digest
          [SessionStart ''2025-10-27T13:00:00'',
           Milestone ''2025-10-27T13:00:01'' ''2025-10-27T13:00:02'' ''20251027_130002''
             ''Framework Mastery'' ''core loop'' ''faster'' True] engine0))
   \<and> external_signals_created (evolution_data engine0)
     \<le> external_signals_created (evolution_data (run plain_digest
          [SessionStart ''2025-10-27T13:00:00'',
           Milestone ''2025-10-27T13:00:01'' ''2025-10-27T13:00:02'' ''20251027_130002''
             ''Framework Mastery'' ''core loop'' ''faster'' True] engine0))"
  by (rule C9_counters_monotone)

subsection \<open>Resume on startup\<close>

text \<open>
  Claim C8. When the state document names a plan (a non-empty str under
  \<open>current_plan\<close>) whose plan file does not exist, \<open>resume_on_startup\<close> returns the
  state document itself, with no error, no plan path and no payload; the one message
  printed is the warning about the missing plan file.
\<close>

theorem C8_missing_plan_file:
  assumes "state_json fs = Parsed (JObj kvs)"
    and "map_of kvs ''current_plan'' = Some (JStr p)"
    and "p \<noteq> []"
    and "\<not> path_exists fs (plan_file_of fs p)"
  shows "resume_on_startup fs = ([PlanFileMissing p], Inr (RawState (JObj kvs)))"
  using assms by (simp add: resume_on_startup_def)

theorem C8_missing_plan_file_witness:
  "state_json fs_noplan = Parsed (JObj state0)
   \<and> map_of state0 ''current_plan'' = Some (JStr ''deploy.md'')
   \<and> ''deploy.md'' \<noteq> []
   \<and> \<not> path_exists fs_noplan (plan_file_of fs_noplan ''deploy.md'')
   \<and> resume_on_startup fs_noplan = ([PlanFileMissing ''deploy.md''], Inr (RawState (JObj state0)))"
proof -
  have h1: "state_json fs_noplan = Parsed (JObj state0)" by (simp add: fs_noplan_def)
  have h2: "map_of state0 ''current_plan'' = Some (JStr ''deploy.md'')"
    by (simp add: state0_def)
  have h3: "''deploy.md'' \<noteq> []" by simp
  have h4: "\<not> path_exists fs_noplan (plan_file_of fs_noplan ''deploy.md'')"
    by (simp add: fs_noplan_def)
  from C8_missing_plan_file [OF h1 h2 h3 h4] h1 h2 h3 h4 show ?thesis by blast
qed

lemma sort_123:
  assumes "set xs = {1, 2, 3::int}" and "distinct xs"
  shows "sort xs = [1, 2, 3]"
proof (rule sorted_distinct_set_unique)
  show "sorted (sort xs)" by simp
  show "distinct (sort xs)" using assms by simp
  show "sorted [1, 2, 3::int]" by simp
  show "distinct [1, 2, 3::int]" by simp
  show "set (sort xs) = set [1, 2, 3::int]" using assms by auto
qed

text \<open>
  Claim C2, as amended. When the state document names a plan whose file exists and the
  markers of the checkpoint directory parse to the step numbers 1, 2 and 3, in any order
  and any number of times, \<open>resume_on_startup\<close> returns a payload with
  \<open>next_step = 4\<close> whose \<open>completed_steps\<close> is the ascending list of the parsed
  numbers, one entry per marker. That list is \<open>[1, 2, 3]\<close> when no two markers encode
  the same number. Two markers that encode the same number, such as \<open>step-1.ok\<close> and
  \<open>step-01.ok\<close>, both stay in the list.
\<close>

theorem C2_resume_steps:
  assumes "state_json fs = Parsed (JObj kvs)"
    and "map_of kvs ''current_plan'' = Some (JStr p)"
    and "p \<noteq> []"
    and "path_exists fs (plan_file_of fs p)"
    and "set (parse_markers (filter glob_match (checkpoint_names fs))) = {1, 2, 3}"
  shows "snd (resume_on_startup fs) =
           Inr (Payload \<lparr>rp_state = JObj kvs, rp_plan_file = plan_file_of fs p,
                  completed_steps = sort (parse_markers (filter glob_match (checkpoint_names fs))),
                  next_step = 4\<rparr>)
       \<and> (distinct (parse_markers (filter glob_match (checkpoint_names fs))) \<longrightarrow>
            sort (parse_markers (filter glob_match (checkpoint_names fs))) = [1, 2, 3])"
proof -
  let ?c = "parse_markers (filter glob_match (checkpoint_names fs))"
  have ne: "?c \<noteq> []" using assms(5) by auto
  have mx: "Max (set ?c) = 3" using assms(5) by simp
  show ?thesis
    using assms(1-4) ne mx sort_123 [OF assms(5)]
    by (simp add: resume_on_startup_def Let_def)
qed

lemma markers_fs0: "parse_markers (filter glob_match (checkpoint_names fs0)) = [1, 3, 2]"
  by code_simp

theorem C2_resume_steps_witness:
  "state_json fs0 = Parsed (JObj state0)
   \<and> map_of state0 ''current_plan'' = Some (JStr ''deploy.md'')
   \<and> ''deploy.md'' \<noteq> []
   \<and> path_exists fs0 (plan_file_of fs0 ''deploy.md'')
   \<and> set (parse_markers (filter glob_match (checkpoint_names fs0))) = {1, 2, 3}
   \<and> distinct (parse_markers (filter glob_match (checkpoint_names fs0)))
   \<and> snd (resume_on_startup fs0) =
       Inr (Payload \<lparr>rp_state = JObj state0,
              rp_plan_file = ''.echo_memory/echo_state/plan/deploy.md'',
              completed_steps = [1, 2, 3], next_step = 4\<rparr>)"
proof -
  have h1: "state_json fs0 = Parsed (JObj state0)" by (simp add: fs0_def)
  have h2: "map_of state0 ''current_plan'' = Some (JStr ''deploy.md'')"
    by (simp add: state0_def)
  have h3: "''deploy.md'' \<noteq> []" by simp
  have h4: "path_exists fs0 (plan_file_of fs0 ''deploy.md'')"
    by (simp add: fs0_def plan_path0_def exists0_def)
  have h5: "set (parse_markers (filter glob_match (checkpoint_names fs0))) = {1, 2, 3}"
    by (auto simp: markers_fs0)
  have h6: "distinct (parse_markers (filter glob_match (checkpoint_names fs0)))"
    by (simp add: markers_fs0)
  have p: "plan_file_of fs0 ''deploy.md'' = ''.echo_memory/echo_state/plan/deploy.md''"
    by (simp add: fs0_def plan_path0_def)
  from C2_resume_steps [OF h1 h2 h3 h4 h5] h6 p
  have "snd (resume_on_startup fs0) =
       Inr (Payload \<lparr>rp_state = JObj state0,
              rp_plan_file = ''.echo_memory/echo_state/plan/deploy.md'',
              completed_steps = [1, 2, 3], next_step = 4\<rparr>)"
    by simp
  with h1 h2 h3 h4 h5 h6 show ?thesis by blast
qed

lemma markers_fs_dup:
  "parse_markers (filter glob_match (checkpoint_names fs_dup)) = [1, 3, 1, 2]"
  by code_simp

text \<open>
  The claim as first stated fails on \<open>fs_dup\<close>: its four markers parse to the step
  numbers 1, 2 and 3, the plan file exists, and \<open>completed_steps\<close> is
  \<open>[1, 1, 2, 3]\<close>, not \<open>[1, 2, 3]\<close>.
\<close>

theorem C2_duplicate_markers_counterexample:
  "state_json fs_dup = Parsed (JObj state0)
   \<and> map_of state0 ''current_plan'' = Some (JStr ''deploy.md'')
   \<and> path_exists fs_dup (plan_file_of fs_dup ''deploy.md'')
   \<and> set (parse_markers (filter glob_match (checkpoint_names fs_dup))) = {1, 2, 3}
   \<and> snd (resume_on_startup fs_dup) =
       Inr (Payload \<lparr>rp_state = JObj state0,
              rp_plan_file = ''.echo_memory/echo_state/plan/deploy.md'',
              completed_steps = [1, 1, 2, 3], next_step = 4\<rparr>)
   \<and> snd (resume_on_startup fs_dup) \<noteq>
       Inr (Payload \<lparr>rp_state = JObj state0,
              rp_plan_file = ''.echo_memory/echo_state/plan/deploy.md'',
              completed_steps = [1, 2, 3], next_step = 4\<rparr>)"
proof -
  have h1: "state_json fs_dup = Parsed (JObj state0)" by (simp add: fs_dup_def)
  have h2: "map_of state0 ''current_plan'' = Some (JStr ''deploy.md'')"
    by (simp add: state0_def)
  have h4: "path_exists fs_dup (plan_file_of fs_dup ''deploy.md'')"
    by (simp add: fs_dup_def plan_path0_def exists0_def)
  have h5: "set (parse_markers (filter glob_match (checkpoint_names fs_dup))) = {1, 2, 3}"
    by (auto simp: markers_fs_dup)
  have r: "snd (resume_on_startup fs_dup) =
       Inr (Payload \<lparr>rp_state = JObj state0,
              rp_plan_file = ''.echo_memory/echo_state/plan/deploy.md'',
              completed_steps = [1, 1, 2, 3], next_step = 4\<rparr>)"
    by code_simp
  have "snd (resume_on_startup fs_dup) \<noteq>
       Inr (Payload \<lparr>rp_state = JObj state0,
              rp_plan_file = ''.echo_memory/echo_state/plan/deploy.md'',
              completed_steps = [1, 2, 3], next_step = 4\<rparr>)"
    unfolding r by simp
  with h1 h2 h4 h5 r show ?thesis by blast
qed

subsection \<open>Order independence of the checksum\<close>

lemma map_insort_key: "map f (insort_key f x xs) = insort (f x) (map f xs)"
  by (induction xs) simp_all

lemma map_sort_key: "map f (sort_key f xs) = sort (map f xs)"
  by (induction xs) (simp_all add: map_insort_key)

lemma distinct_map_sort_key:
  "distinct (map f (sort_key f xs)) = distinct (map f xs)"
  by (simp add: map_sort_key)

lemma sorted_keys_eq:
  assumes "distinct (map fst a)" "distinct (map fst b)" "fst ` set a = fst ` set b"
  shows "map fst (sort_key fst a) = map fst (sort_key fst b)"
proof (rule sorted_distinct_set_unique)
  show "sorted (map fst (sort_key fst a))" by (rule sorted_sort_key)
  show "sorted (map fst (sort_key fst b))" by (rule sorted_sort_key)
  show "distinct (map fst (sort_key fst a))" using assms(1) by (simp add: distinct_map_sort_key)
  show "distinct (map fst (sort_key fst b))" using assms(2) by (simp add: distinct_map_sort_key)
  show "set (map fst (sort_key fst a)) = set (map fst (sort_key fst b))"
    using assms(3) by simp
qed

lemma dict_rel_sorted:
  assumes da: "distinct (map fst a)" and db: "distinct (map fst b)"
    and len: "length a = length b"
    and all: "\<And>k v. (k, v) \<in> set a \<Longrightarrow> \<exists>w. map_of b k = Some w \<and> R v w"
  shows "list_all2 (item_rel R) (sort_key fst a) (sort_key fst b)"
proof -
  have sub: "fst ` set a \<subseteq> fst ` set b"
  proof
    fix k assume "k \<in> fst ` set a"
    then obtain v where "(k, v) \<in> set a" by auto
    from all [OF this] obtain w where "map_of b k = Some w" by blast
    then have "(k, w) \<in> set b" by (rule map_of_SomeD)
    then show "k \<in> fst ` set b" by force
  qed
  have "card (fst ` set a) = length a" using da by (metis distinct_card length_map set_map)
  moreover have "card (fst ` set b) = length b" using db by (metis distinct_card length_map set_map)
  ultimately have "card (fst ` set a) = card (fst ` set b)" using len by simp
  with sub have keys: "fst ` set a = fst ` set b"
    by (simp add: card_subset_eq)
  have mk: "map fst (sort_key fst a) = map fst (sort_key fst b)"
    by (rule sorted_keys_eq [OF da db keys])
  have ll: "length (sort_key fst a) = length (sort_key fst b)" using len by simp
  show ?thesis
  proof (rule list_all2_all_nthI [OF ll])
    fix i assume i: "i < length (sort_key fst a)"
    let ?p = "sort_key fst a ! i" and ?q = "sort_key fst b ! i"
    have fk: "fst ?p = fst ?q"
      using mk i ll by (metis nth_map)
    have "?p \<in> set a" using i by (metis nth_mem set_sort)
    then have "(fst ?p, snd ?p) \<in> set a" by simp
    from all [OF this] obtain w where w: "map_of b (fst ?p) = Some w" "R (snd ?p) w" by blast
    have "?q \<in> set b" using i ll by (metis nth_mem set_sort)
    then have "(fst ?q, snd ?q) \<in> set b" by simp
    then have "map_of b (fst ?q) = Some (snd ?q)" using db by (rule map_of_is_SomeI [rotated])
    with w fk have "R (snd ?p) (snd ?q)" by simp
    with fk show "item_rel R ?p ?q" by (simp add: item_rel_def)
  qed
qed


lemma list_all2_map_eq:
  "list_all2 (\<lambda>x y. f x = g y) xs ys \<Longrightarrow> map f xs = map g ys"
  by (induction xs ys rule: list_all2_induct) simp_all

lemma dumps_obj: "dumps (JObj kvs) = ''{'' @ join '', '' (map item (sort_key fst kvs)) @ ''}''"
proof -
  have "(\<lambda>(k, v). encode_basestring_ascii k @ '': '' @ dumps v) = item"
    by (auto simp: item_def fun_eq_iff)
  then show ?thesis by simp
qed

lemma item_rel_dumps_map:
  assumes "list_all2 (item_rel (\<lambda>v w. dumps v = dumps w)) xs ys"
  shows "map item xs = map item ys"
proof (rule list_all2_map_eq)
  show "list_all2 (\<lambda>x y. item x = item y) xs ys"
    using assms by (rule list_all2_mono) (simp add: item_rel_def item_def)
qed

lemma wf_obj_dict_rel:
  assumes "wf_json (JObj a)" "wf_json (JObj b)" "same_items (JObj a) (JObj b)"
  shows "list_all2 (item_rel same_items) (sort_key fst a) (sort_key fst b)"
proof (rule dict_rel_sorted)
  show "distinct (map fst a)" "distinct (map fst b)" using assms by simp_all
  show "length a = length b" using assms(3) by simp
  fix k v assume "(k, v) \<in> set a"
  with assms(3) show "\<exists>w. map_of b k = Some w \<and> same_items v w"
    by (auto split: option.splits)
qed

lemma same_items_dumps:
  "wf_json a \<Longrightarrow> wf_json b \<Longrightarrow> same_items a b \<Longrightarrow> dumps a = dumps b"
proof (induction a arbitrary: b)
  case (JList xs)
  show ?case
  proof (cases b)
    case (JList ys)
    with JList.prems have r: "list_all2 same_items xs ys" by simp
    have "list_all2 (\<lambda>x y. dumps x = dumps y) xs ys"
      using r
    proof (rule list.rel_mono_strong)
      fix x y assume "x \<in> set xs" "y \<in> set ys" "same_items x y"
      moreover from this JList.prems JList have "wf_json x" "wf_json y" by simp_all
      ultimately show "dumps x = dumps y" using JList.IH by blast
    qed
    then have "map dumps xs = map dumps ys" by (rule list_all2_map_eq)
    with JList show ?thesis by simp
  qed (use JList.prems in simp_all)
next
  case (JObj a)
  show ?case
  proof (cases b)
    case b: (JObj b')
    have r: "list_all2 (item_rel same_items) (sort_key fst a) (sort_key fst b')"
      using JObj.prems unfolding b by (rule wf_obj_dict_rel)
    have "list_all2 (item_rel (\<lambda>v w. dumps v = dumps w)) (sort_key fst a) (sort_key fst b')"
      using r
    proof (rule list.rel_mono_strong)
      fix p q assume p: "p \<in> set (sort_key fst a)" and q: "q \<in> set (sort_key fst b')"
        and pq: "item_rel same_items p q"
      from p have pa: "p \<in> set a" by simp
      from q have qb: "q \<in> set b'" by simp
      have "wf_json (snd p)" using pa JObj.prems(1) by simp
      moreover have "wf_json (snd q)" using qb JObj.prems(2) b by simp
      moreover have "snd p \<in> Basic_BNFs.snds p" by (cases p) simp
      ultimately have "dumps (snd p) = dumps (snd q)"
        using JObj.IH [OF pa] pq by (simp add: item_rel_def)
      with pq show "item_rel (\<lambda>v w. dumps v = dumps w) p q" by (simp add: item_rel_def)
    qed
    then have "map item (sort_key fst a) = map item (sort_key fst b')"
      by (rule item_rel_dumps_map)
    then show ?thesis unfolding b dumps_obj by simp
  qed (use JObj.prems in simp_all)
qed simp_all

lemma item_rel_filter:
  assumes "list_all2 (item_rel R) xs ys"
  shows "list_all2 (item_rel R) (filter (\<lambda>(k, v). P k) xs) (filter (\<lambda>(k, v). P k) ys)"
  using assms by (induction xs ys rule: list_all2_induct) (auto simp: item_rel_def)

lemma same_items_filter_dumps:
  assumes "wf_json (JObj a)" "wf_json (JObj b)" "same_items (JObj a) (JObj b)"
  shows "dumps (JObj (filter (\<lambda>(k, v). P k) a)) = dumps (JObj (filter (\<lambda>(k, v). P k) b))"
proof -
  have r: "list_all2 (item_rel same_items) (sort_key fst a) (sort_key fst b)"
    using assms by (rule wf_obj_dict_rel)
  have "list_all2 (item_rel (\<lambda>v w. dumps v = dumps w)) (sort_key fst a) (sort_key fst b)"
    using r
  proof (rule list.rel_mono_strong)
    fix p q assume p: "p \<in> set (sort_key fst a)" and q: "q \<in> set (sort_key fst b)"
      and pq: "item_rel same_items p q"
    have "wf_json (snd p)" using p assms(1) by simp
    moreover have "wf_json (snd q)" using q assms(2) by simp
    ultimately have "dumps (snd p) = dumps (snd q)"
      using pq by (simp add: item_rel_def same_items_dumps)
    with pq show "item_rel (\<lambda>v w. dumps v = dumps w) p q" by (simp add: item_rel_def)
  qed
  then have "list_all2 (item_rel (\<lambda>v w. dumps v = dumps w))
      (filter (\<lambda>(k, v). P k) (sort_key fst a)) (filter (\<lambda>(k, v). P k) (sort_key fst b))"
    by (rule item_rel_filter)
  then have "map item (filter (\<lambda>(k, v). P k) (sort_key fst a))
      = map item (filter (\<lambda>(k, v). P k) (sort_key fst b))"
    by (rule item_rel_dumps_map)
  then show ?thesis unfolding dumps_obj by (simp only: filter_sort)
qed

text \<open>
  Claim C5. Two records whose dicts hold the same items (the same keys with equal
  values, at the top level and in every nested dict) have the same checksum, whatever
  the orders in which their dicts were built.
\<close>

theorem C5_order_independent:
  assumes "wf_json (JObj e1)" and "wf_json (JObj e2)" and "same_items (JObj e1) (JObj e2)"
  shows "hash_entry H e1 = hash_entry H e2"
  using same_items_filter_dumps [OF assms, of "\<lambda>k. k \<noteq> ''checksum''"]
  by (simp add: hash_entry_def)

theorem C5_order_independent_witness:
  "wf_json (JObj rec_a) \<and> wf_json (JObj rec_b) \<and> same_items (JObj rec_a) (JObj rec_b)
   \<and> rec_a \<noteq> rec_b
   \<and> hash_entry plain_digest rec_a = hash_entry plain_digest rec_b"
proof -
  have h1: "wf_json (JObj rec_a)" by (simp add: rec_a_def)
  have h2: "wf_json (JObj rec_b)" by (simp add: rec_b_def)
  have h3: "same_items (JObj rec_a) (JObj rec_b)" by (simp add: rec_a_def rec_b_def)
  have h4: "rec_a \<noteq> rec_b" by (simp add: rec_a_def rec_b_def)
  from C5_order_independent [OF h1 h2 h3] h1 h2 h3 h4 show ?thesis by blast
qed

subsection \<open>The dumped text determines the value\<close>











































subsection \<open>Two records under one checksum\<close>




text \<open>
  Two digests as \<open>hashlib\<close> gives them: of \<open>"abc"\<close>, and of a text of 57 bytes (two
  blocks) that ends in a character encoded in two bytes.
\<close>

lemma sha256_abc:
  "sha256_hexdigest ''abc''
     = ''ba7816bf8f01cfea414140de5dae2223b00361a396177a9cb410ff61f20015ad''"
  by code_simp

lemma sha256_two_blocks:
  "sha256_hexdigest (replicate 55 CHR ''a'' @ [CHR 0xE9])
     = ''5db0810b7660bd6ee2c6e66c42735e2f985a3d9a9c2fc12f4c761e12522828c5''"
  by code_simp



lemma line_of_fields:
  "line_of H c = AList.update ''checksum'' (JStr (H (hashed_text (line_of H c))))
     [(''timestamp'', JStr ''2025-10-27T12:00:05''),
      (''session_id'', JStr (session_id engine0)),
      (''type'', JStr ''learning''),
      (''content'', JStr c),
      (''context'', JObj []),
      (''signal_created'', JBool False)]"
  by (simp add: line_of_def log_thought_def Let_def save_evolution_def hash_entry_def
      hashed_text_def EXTERNAL_INTEGRATION_AVAILABLE_def)










end
